theory Spec2Isabelle
  imports Main "HOL-Library.Char_ord" "HOL-Library.List_Lexorder"
begin

section \<open>Values\<close>

text \<open>
  A JavaScript value as the store sees it.  Numbers are restricted to integers, a
  timestamp is its millisecond count.  Dates, arrays and objects are heap objects:
  each carries the address it lives at, so that the strict equality \<open>===\<close> of the
  source (pointer equality on objects) can be told from structural equality.
\<close>

type_synonym ref = nat

datatype jvalue =
    Undefined
  | Null
  | Num int
  | Str string
  | Bool bool
  | Date ref int
  | Arr ref "jvalue list"
  | Obj ref "(string \<times> jvalue) list"

datatype error =
    UniqueViolated
  | MissingFieldName
  | InconsistentProjection
  | OtherError string

text \<open>\<open>a === b\<close>: by value on primitives, by address on objects.\<close>

fun strictEq :: "jvalue \<Rightarrow> jvalue \<Rightarrow> bool" where
  "strictEq Undefined Undefined = True"
| "strictEq Null Null = True"
| "strictEq (Num a) (Num b) = (a = b)"
| "strictEq (Str a) (Str b) = (a = b)"
| "strictEq (Bool a) (Bool b) = (a = b)"
| "strictEq (Date r _) (Date r' _) = (r = r')"
| "strictEq (Arr r _) (Arr r' _) = (r = r')"
| "strictEq (Obj r _) (Obj r' _) = (r = r')"
| "strictEq _ _ = False"

fun isArray :: "jvalue \<Rightarrow> bool" where
  "isArray (Arr _ _) = True"
| "isArray _ = False"

text \<open>Decimal rendering of an integer, as string concatenation with a number gives.\<close>

fun string_of_nat :: "nat \<Rightarrow> string" where
  "string_of_nat n =
     (if n < 10 then [char_of (48 + n)]
      else string_of_nat (n div 10) @ [char_of (48 + n mod 10)])"

declare string_of_nat.simps [simp del]

definition number_to_string :: "int \<Rightarrow> string" where
  "number_to_string i = (if i < 0 then ''-'' @ string_of_nat (nat (- i)) else string_of_nat (nat i))"

section \<open>Index: projection of array elements\<close>

text \<open>indexes, \<open>checkValueEquality\<close>: two indexed pointers are equal iff they point to the same place.\<close>

definition checkValueEquality :: "jvalue \<Rightarrow> jvalue \<Rightarrow> bool" where
  "checkValueEquality a b = strictEq a b"

text \<open>
  \<open>projectForUnique\<close>.  The first test of the source is
  \<open>elt === null || Array.isArray(elt)\<close>, so an array takes the \<open>$null\<close> branch; the later
  \<open>Array.isArray\<close> branch (\<open>$date\<close>) is never reached.  Everything that is left
  (undefined, dates, objects) is returned as it is.
\<close>

fun projectForUnique :: "jvalue \<Rightarrow> jvalue" where
  "projectForUnique Null = Str ''$null''"
| "projectForUnique (Arr r xs) = Str ''$null''"
| "projectForUnique (Str s) = Str (''$string'' @ s)"
| "projectForUnique (Bool b) = Str (''$boolean'' @ (if b then ''true'' else ''false''))"
| "projectForUnique (Num n) = Str (''$number'' @ number_to_string n)"
| "projectForUnique elt = elt"

text \<open>
  \<open>_.uniq(array, iteratee)\<close> of underscore: an element is kept when its computed value is
  not (by \<open>===\<close>) among the computed values seen so far.
\<close>

fun uniq_seen :: "('a \<Rightarrow> jvalue) \<Rightarrow> jvalue list \<Rightarrow> 'a list \<Rightarrow> 'a list" where
  "uniq_seen f seen [] = []"
| "uniq_seen f seen (x # xs) =
     (if list_ex (strictEq (f x)) seen then uniq_seen f seen xs
      else x # uniq_seen f (seen @ [f x]) xs)"

definition uniq :: "'a list \<Rightarrow> ('a \<Rightarrow> jvalue) \<Rightarrow> 'a list" where
  "uniq xs f = uniq_seen f [] xs"

section \<open>Document model\<close>

text \<open>
  Modelled from the spec: \<open>model.getDotValue\<close> (the model module is not among the sources).
  The path is split on \<open>.\<close> and walked downwards.  On an array, a decimal segment indexes
  into it; any other segment is looked up in each element and the results that are not
  undefined are collected into a new array.  A missing path yields undefined.
\<close>

fun split_dots :: "string \<Rightarrow> string \<Rightarrow> string list" where
  "split_dots acc [] = [acc]"
| "split_dots acc (c # cs) =
     (if c = CHR ''.'' then acc # split_dots [] cs else split_dots (acc @ [c]) cs)"

definition is_decimal :: "string \<Rightarrow> bool" where
  "is_decimal s = (s \<noteq> [] \<and> list_all (\<lambda>c. CHR ''0'' \<le> c \<and> c \<le> CHR ''9'') s)"

definition decimal_value :: "string \<Rightarrow> nat" where
  "decimal_value s = foldl (\<lambda>n c. 10 * n + (of_char c - 48)) 0 s"

fun lookup_field :: "(string \<times> jvalue) list \<Rightarrow> string \<Rightarrow> jvalue" where
  "lookup_field [] k = Undefined"
| "lookup_field ((k', v) # fs) k = (if k' = k then v else lookup_field fs k)"

function getDotParts :: "jvalue \<Rightarrow> string list \<Rightarrow> jvalue" where
  "getDotParts v [] = v"
| "getDotParts (Obj r fs) (p # ps) = getDotParts (lookup_field fs p) ps"
| "getDotParts (Arr r xs) (p # ps) =
     (if is_decimal p
      then (if decimal_value p < length xs then getDotParts (xs ! decimal_value p) ps
            else Undefined)
      else Arr 0 (filter (\<lambda>v. v \<noteq> Undefined) (map (\<lambda>x. getDotParts x (p # ps)) xs)))"
| "getDotParts Undefined (p # ps) = Undefined"
| "getDotParts Null (p # ps) = Undefined"
| "getDotParts (Num n) (p # ps) = Undefined"
| "getDotParts (Str s) (p # ps) = Undefined"
| "getDotParts (Bool b) (p # ps) = Undefined"
| "getDotParts (Date r t) (p # ps) = Undefined"
  by pat_completeness auto
termination
  by (relation "measures [\<lambda>(v, ps). length ps, \<lambda>(v, ps). size v]")
     (auto simp: less_Suc_eq_le size_list_estimation')

definition getDotValue :: "jvalue \<Rightarrow> string \<Rightarrow> jvalue" where
  "getDotValue doc field = getDotParts doc (split_dots [] field)"

text \<open>
  Modelled from the spec: \<open>model.compareThings\<close>, the total order of the data model (the
  model module is not among the sources); \<open>cs\<close> is the comparison of strings, by code
  point when the caller gives none.  Buckets:
  undefined, null, number, string, boolean, timestamp, array, object.  Arrays compare
  element by element, a proper prefix first; objects by their (key, value) pairs in the
  defining sequence, then by length.  Addresses play no part.
\<close>

fun bucket :: "jvalue \<Rightarrow> nat" where
  "bucket Undefined = 0"
| "bucket Null = 1"
| "bucket (Num _) = 2"
| "bucket (Str _) = 3"
| "bucket (Bool _) = 4"
| "bucket (Date _ _) = 5"
| "bucket (Arr _ _) = 6"
| "bucket (Obj _ _) = 7"

definition compareNSB :: "'a::linorder \<Rightarrow> 'a \<Rightarrow> int" where
  "compareNSB a b = (if a < b then - 1 else if b < a then 1 else 0)"

fun compareThingsWith :: "(string \<Rightarrow> string \<Rightarrow> int) \<Rightarrow> jvalue \<Rightarrow> jvalue \<Rightarrow> int"
  and compareArrays :: "(string \<Rightarrow> string \<Rightarrow> int) \<Rightarrow> jvalue list \<Rightarrow> jvalue list \<Rightarrow> int"
  and compareFields ::
    "(string \<Rightarrow> string \<Rightarrow> int) \<Rightarrow> (string \<times> jvalue) list \<Rightarrow> (string \<times> jvalue) list \<Rightarrow> int"
where
  "compareThingsWith cs (Num a) (Num b) = compareNSB a b"
| "compareThingsWith cs (Str a) (Str b) = cs a b"
| "compareThingsWith cs (Bool a) (Bool b) = compareNSB a b"
| "compareThingsWith cs (Date _ a) (Date _ b) = compareNSB a b"
| "compareThingsWith cs (Arr _ xs) (Arr _ ys) = compareArrays cs xs ys"
| "compareThingsWith cs (Obj _ fs) (Obj _ gs) = compareFields cs fs gs"
| "compareThingsWith cs a b = compareNSB (bucket a) (bucket b)"
| "compareArrays cs [] [] = 0"
| "compareArrays cs [] (y # ys) = - 1"
| "compareArrays cs (x # xs) [] = 1"
| "compareArrays cs (x # xs) (y # ys) =
     (let c = compareThingsWith cs x y in if c \<noteq> 0 then c else compareArrays cs xs ys)"
| "compareFields cs [] [] = 0"
| "compareFields cs [] (g # gs) = - 1"
| "compareFields cs (f # fs) [] = 1"
| "compareFields cs (f # fs) (g # gs) =
     (let k = compareNSB (fst f) (fst g) in
      if k \<noteq> 0 then k
      else let c = compareThingsWith cs (snd f) (snd g) in
           if c \<noteq> 0 then c else compareFields cs fs gs)"

abbreviation compareThings :: "jvalue \<Rightarrow> jvalue \<Rightarrow> int" where
  "compareThings \<equiv> compareThingsWith compareNSB"

section \<open>The ordered multimap behind an index\<close>

text \<open>
  The index keeps its entries in the AVL tree of the library \<open>binary-search-tree\<close>, which
  is not part of the repository.  The tree is modelled by what the index observes of it:
  its nodes in key order, each a key with the list \<open>data\<close> of the documents stored under
  it.  \<open>insert\<close> appends to the data of the node with an equal key (or raises when the
  tree is unique) and adds a node otherwise; \<open>delete\<close> with a value filters the data of
  a node that holds more than one value and removes the node otherwise; a key that is
  not found changes nothing.
\<close>

type_synonym tree = "(jvalue \<times> jvalue list) list"

datatype 's outcome = Done 's | Failed error 's

fun tree_insert :: "(jvalue \<Rightarrow> jvalue \<Rightarrow> int) \<Rightarrow> bool \<Rightarrow> jvalue \<Rightarrow> jvalue \<Rightarrow> tree \<Rightarrow> error + tree" where
  "tree_insert cmp u k v [] = Inr [(k, [v])]"
| "tree_insert cmp u k v ((k', ds) # t) =
     (if cmp k k' = 0 then (if u then Inl UniqueViolated else Inr ((k', ds @ [v]) # t))
      else if cmp k k' < 0 then Inr ((k, [v]) # (k', ds) # t)
      else (case tree_insert cmp u k v t of
              Inl e \<Rightarrow> Inl e
            | Inr t' \<Rightarrow> Inr ((k', ds) # t')))"

fun tree_delete :: "(jvalue \<Rightarrow> jvalue \<Rightarrow> int) \<Rightarrow> jvalue \<Rightarrow> jvalue \<Rightarrow> tree \<Rightarrow> tree" where
  "tree_delete cmp k v [] = []"
| "tree_delete cmp k v ((k', ds) # t) =
     (if cmp k k' = 0
      then (if length ds > 1 \<and> v \<noteq> Undefined
            then (k', filter (\<lambda>d. \<not> checkValueEquality d v) ds) # t
            else t)
      else if cmp k k' < 0 then (k', ds) # t
      else (k', ds) # tree_delete cmp k v t)"

fun tree_search :: "(jvalue \<Rightarrow> jvalue \<Rightarrow> int) \<Rightarrow> jvalue \<Rightarrow> tree \<Rightarrow> jvalue list" where
  "tree_search cmp k [] = []"
| "tree_search cmp k ((k', ds) # t) =
     (if cmp k k' = 0 then ds else if cmp k k' < 0 then [] else tree_search cmp k t)"

section \<open>Index\<close>

record index =
  fieldName :: string
  unique :: bool
  sparse :: bool
  tree :: tree

text \<open>\<open>new Index(options)\<close>: \<open>unique\<close> and \<open>sparse\<close> default to false, no data in the beginning.\<close>

definition new_Index :: "string \<Rightarrow> bool \<Rightarrow> bool \<Rightarrow> index" where
  "new_Index f u s = \<lparr>fieldName = f, unique = u, sparse = s, tree = []\<rparr>"

fun elements :: "jvalue \<Rightarrow> jvalue list" where
  "elements (Arr _ xs) = xs"
| "elements _ = []"

text \<open>
  The loop of \<open>Index.insert\<close> over the keys of an array value: it stops at the first key
  the tree refuses and reports the error with \<open>failingI\<close>, the position of that key.
\<close>

fun insertKeys :: "bool \<Rightarrow> jvalue \<Rightarrow> jvalue list \<Rightarrow> tree \<Rightarrow> tree \<times> (error \<times> nat) option" where
  "insertKeys u doc [] t = (t, None)"
| "insertKeys u doc (k # ks) t =
     (case tree_insert compareThings u k doc t of
        Inl e \<Rightarrow> (t, Some (e, 0))
      | Inr t' \<Rightarrow> (case insertKeys u doc ks t' of
                    (t'', None) \<Rightarrow> (t'', None)
                  | (t'', Some (e, i)) \<Rightarrow> (t'', Some (e, Suc i))))"

fun deleteKeys :: "jvalue \<Rightarrow> jvalue list \<Rightarrow> tree \<Rightarrow> tree" where
  "deleteKeys doc [] t = t"
| "deleteKeys doc (k # ks) t = deleteKeys doc ks (tree_delete compareThings k doc t)"

text \<open>\<open>Index.insert\<close> on one document (the branch taken when the argument is no array).\<close>

definition Index_insert_one :: "index \<Rightarrow> jvalue \<Rightarrow> index outcome" where
  "Index_insert_one idx doc =
     (let key = getDotValue doc (fieldName idx) in
      if key = Undefined \<and> sparse idx then Done idx
      else if \<not> isArray key then
        (case tree_insert compareThings (unique idx) key doc (tree idx) of
           Inl e \<Rightarrow> Failed e idx
         | Inr t \<Rightarrow> Done (idx\<lparr>tree := t\<rparr>))
      else
        (let keys = uniq (elements key) projectForUnique in
         case insertKeys (unique idx) doc keys (tree idx) of
           (t, None) \<Rightarrow> Done (idx\<lparr>tree := t\<rparr>)
         | (t, Some (e, failingI)) \<Rightarrow>
             Failed e (idx\<lparr>tree := deleteKeys doc (take failingI keys) t\<rparr>)))"

text \<open>\<open>Index.remove\<close> on one document.\<close>

definition Index_remove_one :: "index \<Rightarrow> jvalue \<Rightarrow> index" where
  "Index_remove_one idx doc =
     (let key = getDotValue doc (fieldName idx) in
      if key = Undefined \<and> sparse idx then idx
      else if \<not> isArray key then idx\<lparr>tree := tree_delete compareThings key doc (tree idx)\<rparr>
      else idx\<lparr>tree := deleteKeys doc (uniq (elements key) projectForUnique) (tree idx)\<rparr>)"

fun removeEach :: "index \<Rightarrow> jvalue list \<Rightarrow> index" where
  "removeEach idx [] = idx"
| "removeEach idx (d # ds) = removeEach (Index_remove_one idx d) ds"

text \<open>
  The loop of \<open>insertMultipleDocs\<close>: the documents are inserted in order up to the first
  failure, reported with its position.
\<close>

fun insertDocs :: "index \<Rightarrow> jvalue list \<Rightarrow> index \<times> (error \<times> nat) option" where
  "insertDocs idx [] = (idx, None)"
| "insertDocs idx (d # ds) =
     (case Index_insert_one idx d of
        Failed e idx' \<Rightarrow> (idx', Some (e, 0))
      | Done idx' \<Rightarrow> (case insertDocs idx' ds of
                      (idx'', None) \<Rightarrow> (idx'', None)
                    | (idx'', Some (e, i)) \<Rightarrow> (idx'', Some (e, Suc i))))"

definition Index_insertMultipleDocs :: "index \<Rightarrow> jvalue list \<Rightarrow> index outcome" where
  "Index_insertMultipleDocs idx docs =
     (case insertDocs idx docs of
        (idx', None) \<Rightarrow> Done idx'
      | (idx', Some (e, failingI)) \<Rightarrow> Failed e (removeEach idx' (take failingI docs)))"

text \<open>
  \<open>Index.insert\<close> and \<open>Index.remove\<close>: an array argument is a batch of documents.  (The
  elements of a batch are taken to be documents, not arrays again.)
\<close>

definition Index_insert :: "index \<Rightarrow> jvalue \<Rightarrow> index outcome" where
  "Index_insert idx doc =
     (if isArray doc then Index_insertMultipleDocs idx (elements doc)
      else Index_insert_one idx doc)"

definition Index_remove :: "index \<Rightarrow> jvalue \<Rightarrow> index" where
  "Index_remove idx doc =
     (if isArray doc then removeEach idx (elements doc) else Index_remove_one idx doc)"

text \<open>
  A JavaScript object used as a dictionary: an association list in the order in which
  the properties were created.
\<close>

fun get_prop :: "(string \<times> 'a) list \<Rightarrow> string \<Rightarrow> 'a option" where
  "get_prop [] k = None"
| "get_prop ((k', v) # xs) k = (if k' = k then Some v else get_prop xs k)"

fun set_prop :: "string \<Rightarrow> 'a \<Rightarrow> (string \<times> 'a) list \<Rightarrow> (string \<times> 'a) list" where
  "set_prop k v [] = [(k, v)]"
| "set_prop k v ((k', v') # xs) = (if k' = k then (k, v) # xs else (k', v') # set_prop k v xs)"

definition delete_prop :: "string \<Rightarrow> (string \<times> 'a) list \<Rightarrow> (string \<times> 'a) list" where
  "delete_prop k xs = filter (\<lambda>kv. fst kv \<noteq> k) xs"

text \<open>
  The property name a value turns into when it is used as a key (\<open>String(value)\<close>).  The
  source's rendering of a date depends on the host's time zone; it is a function of the
  instant in whole seconds, and is rendered here as that number after the word \<open>Date\<close>.
\<close>

fun toPropertyKey :: "jvalue \<Rightarrow> string"
  and joinKeys :: "jvalue list \<Rightarrow> string"
where
  "toPropertyKey Undefined = ''undefined''"
| "toPropertyKey Null = ''null''"
| "toPropertyKey (Bool b) = (if b then ''true'' else ''false'')"
| "toPropertyKey (Num n) = number_to_string n"
| "toPropertyKey (Str s) = s"
| "toPropertyKey (Date r t) = ''Date '' @ number_to_string (t div 1000)"
| "toPropertyKey (Arr r xs) = joinKeys xs"
| "toPropertyKey (Obj r fs) = ''[object Object]''"
| "joinKeys [] = []"
| "joinKeys (x # xs) =
     (if x = Undefined \<or> x = Null then [] else toPropertyKey x)
     @ (if xs = [] then [] else '','' @ joinKeys xs)"

text \<open>
  \<open>Object.keys\<close> lists the properties whose names are array indices (decimal numbers
  without a leading zero, up to \<open>2^32 - 2\<close>) first, in ascending numeric order, and then the other
  properties in the order of their creation.
\<close>

definition decimal_int :: "string \<Rightarrow> int" where
  "decimal_int s = foldl (\<lambda>n c. 10 * n + (int (of_char c) - 48)) 0 s"

definition isArrayIndex :: "string \<Rightarrow> bool" where
  "isArrayIndex s =
     (is_decimal s \<and> (s = ''0'' \<or> hd s \<noteq> CHR ''0'') \<and> decimal_int s \<le> 4294967294)"

definition objectEntries :: "(string \<times> 'a) list \<Rightarrow> (string \<times> 'a) list" where
  "objectEntries props =
     sort_key (\<lambda>kv. decimal_int (fst kv)) (filter (\<lambda>kv. isArrayIndex (fst kv)) props)
     @ filter (\<lambda>kv. \<not> isArrayIndex (fst kv)) props"

text \<open>
  \<open>Index.getMatching\<close>: a search of the tree, or for an array of values the union of the
  searches, collected in a dictionary under the documents' \<open>_id\<close> (one entry per \<open>_id\<close>)
  and read back in the order of \<open>Object.keys\<close>; and \<open>Index.getAll\<close>.
\<close>

fun obj_fields :: "jvalue \<Rightarrow> (string \<times> jvalue) list" where
  "obj_fields (Obj _ fs) = fs"
| "obj_fields _ = []"

definition doc_id :: "jvalue \<Rightarrow> jvalue" where
  "doc_id doc = lookup_field (obj_fields doc) ''_id''"

function Index_getMatching :: "index \<Rightarrow> jvalue \<Rightarrow> jvalue list" where
  "Index_getMatching idx value =
     (if \<not> isArray value then tree_search compareThings value (tree idx)
      else map snd
             (objectEntries
                (foldl (\<lambda>res v. foldl (\<lambda>res doc. set_prop (toPropertyKey (doc_id doc)) doc res) res
                                    (Index_getMatching idx v))
                   [] (elements value))))"
  by pat_completeness auto
termination
proof (relation "measure (\<lambda>(idx, v). size v)")
  show "wf (measure (\<lambda>(idx, v). size v))" by simp
next
  fix idx :: index and "value" v :: jvalue and a :: "(string \<times> jvalue) list"
  assume "\<not> \<not> isArray value" and "v \<in> set (elements value)"
  then show "((idx, v), idx, value) \<in> measure (\<lambda>(idx, v). size v)"
    by (cases "value") (auto simp: less_Suc_eq_le size_list_estimation')
qed

declare Index_getMatching.simps [simp del]

text \<open>
  \<open>Index.getBetweenBounds\<close>: the documents of the nodes whose key lies within the bounds
  \<open>$gt\<close>, \<open>$gte\<close>, \<open>$lt\<close>, \<open>$lte\<close> that the query object has, in key order.
\<close>

definition hasOwn :: "jvalue \<Rightarrow> string \<Rightarrow> bool" where
  "hasOwn v k = (k \<in> set (map fst (obj_fields v)))"

definition withinBounds :: "jvalue \<Rightarrow> jvalue \<Rightarrow> bool" where
  "withinBounds q k =
     ((hasOwn q ''$gt'' \<longrightarrow> compareThings k (lookup_field (obj_fields q) ''$gt'') > 0) \<and>
      (hasOwn q ''$gte'' \<longrightarrow> compareThings k (lookup_field (obj_fields q) ''$gte'') \<ge> 0) \<and>
      (hasOwn q ''$lt'' \<longrightarrow> compareThings k (lookup_field (obj_fields q) ''$lt'') < 0) \<and>
      (hasOwn q ''$lte'' \<longrightarrow> compareThings k (lookup_field (obj_fields q) ''$lte'') \<le> 0))"

definition Index_getBetweenBounds :: "index \<Rightarrow> jvalue \<Rightarrow> jvalue list" where
  "Index_getBetweenBounds idx q =
     concat (map snd (filter (\<lambda>node. withinBounds q (fst node)) (tree idx)))"

definition Index_getAll :: "index \<Rightarrow> jvalue list" where
  "Index_getAll idx = concat (map snd (tree idx))"


definition Index_update_one :: "index \<Rightarrow> jvalue \<Rightarrow> jvalue \<Rightarrow> index outcome" where
  "Index_update_one idx oldDoc newDoc =
     (case Index_insert (Index_remove idx oldDoc) newDoc of
        Done idx' \<Rightarrow> Done idx'
      | Failed e idx' \<Rightarrow>
          (case Index_insert idx' oldDoc of
             Done idx'' \<Rightarrow> Failed e idx''
           | Failed e' idx'' \<Rightarrow> Failed e' idx''))"





section \<open>The store\<close>

text \<open>
  \<open>indexes\<close> and \<open>ttlIndexes\<close> are JavaScript objects used as dictionaries: association
  lists in the order of \<open>Object.keys\<close> (the order of creation, for names that are not
  array indices).
\<close>

record store =
  indexes :: "(string \<times> index) list"
  ttlIndexes :: "(string \<times> int) list"
  timestampData :: bool
  compareStrings :: "(string \<Rightarrow> string \<Rightarrow> int) option"

record indexOptions =
  o_fieldName :: "string option"
  o_unique :: "bool option"
  o_sparse :: "bool option"
  o_expireAfterSeconds :: "int option"

text \<open>The constructor: \<open>_id\<close> is always indexed, by a unique index.\<close>

definition new_MemoryDB :: store where
  "new_MemoryDB =
     \<lparr>indexes = [(''_id'', new_Index ''_id'' True False)], ttlIndexes = [],
      timestampData = False, compareStrings = None\<rparr>"

text \<open>\<open>getAllData\<close> reads \<open>this.indexes._id\<close>; without that index the call raises a TypeError.\<close>

definition getAllData :: "store \<Rightarrow> error + jvalue list" where
  "getAllData st =
     (case get_prop (indexes st) ''_id'' of
        None \<Rightarrow> Inl (OtherError ''TypeError'')
      | Some idx \<Rightarrow> Inr (Index_getAll idx))"

text \<open>
  \<open>this.indexes\<close> is a plain object, so \<open>this.indexes[name]\<close> also finds what every object
  inherits from \<open>Object.prototype\<close>; all of these values are truthy.
\<close>

definition objectPrototypeNames :: "string list" where
  "objectPrototypeNames =
     [''constructor'', ''__defineGetter__'', ''__defineSetter__'', ''hasOwnProperty'',
      ''__lookupGetter__'', ''__lookupSetter__'', ''isPrototypeOf'', ''propertyIsEnumerable'',
      ''toString'', ''valueOf'', ''__proto__'', ''toLocaleString'']"

text \<open>
  \<open>ensureIndex\<close>.  The test for an existing index reads \<open>this.indexes[fieldName]\<close>.
  \<open>persist\<close> stands for the persistence collaborator: the error, if any,
  it answers to \<open>persistNewState\<close>.  The result is what the callback receives, with the
  store as it is left.
\<close>

definition ensureIndex :: "error option \<Rightarrow> store \<Rightarrow> indexOptions \<Rightarrow> error option \<times> store" where
  "ensureIndex persist st options =
     (case o_fieldName options of
        None \<Rightarrow> (Some MissingFieldName, st)
      | Some f \<Rightarrow>
          if f = [] then (Some MissingFieldName, st)
          else if get_prop (indexes st) f \<noteq> None \<or> f \<in> set objectPrototypeNames
          then (None, st)
          else
            (let idx = new_Index f (case o_unique options of Some u \<Rightarrow> u | None \<Rightarrow> False)
                                   (case o_sparse options of Some sp \<Rightarrow> sp | None \<Rightarrow> False);
                 st1 = st\<lparr>indexes := set_prop f idx (indexes st),
                          ttlIndexes := (case o_expireAfterSeconds options of
                                           Some secs \<Rightarrow> set_prop f secs (ttlIndexes st)
                                         | None \<Rightarrow> ttlIndexes st)\<rparr>
             in case getAllData st1 of
                  Inl e \<Rightarrow> (Some e, st1\<lparr>indexes := delete_prop f (indexes st1)\<rparr>)
                | Inr docs \<Rightarrow>
                    (case Index_insertMultipleDocs idx docs of
                       Failed e idx' \<Rightarrow> (Some e, st1\<lparr>indexes := delete_prop f (indexes st1)\<rparr>)
                     | Done idx' \<Rightarrow> (persist, st1\<lparr>indexes := set_prop f idx' (indexes st1)\<rparr>))))"

text \<open>\<open>removeIndex\<close>: the entry is deleted, whatever its name.\<close>

definition removeIndex :: "error option \<Rightarrow> store \<Rightarrow> string \<Rightarrow> error option \<times> store" where
  "removeIndex persist st f = (persist, st\<lparr>indexes := delete_prop f (indexes st)\<rparr>)"




definition removeFromIndexes :: "(string \<times> index) list \<Rightarrow> jvalue \<Rightarrow> (string \<times> index) list" where
  "removeFromIndexes ixs doc = map (\<lambda>(n, idx). (n, Index_remove idx doc)) ixs"








section \<open>Candidates and removal\<close>

text \<open>
  The functions of the model module that the store calls and that are not among the
  sources are parameters: \<open>match\<close> (\<open>model.match\<close>, which may raise), \<open>modify\<close>
  (\<open>model.modify\<close>), \<open>checkObject\<close> (\<open>model.checkObject\<close>) and \<open>stripCopy\<close>
  (\<open>model.deepCopy\<close> with strict keys).  \<open>persist\<close> is the persistence collaborator: the
  error, if any, that \<open>persistNewState\<close> answers for a list of records.
\<close>

record model_fns =
  m_match :: "jvalue \<Rightarrow> jvalue \<Rightarrow> error + bool"
  m_modify :: "jvalue \<Rightarrow> jvalue \<Rightarrow> error + jvalue"
  m_checkObject :: "jvalue \<Rightarrow> error option"
  m_stripCopy :: "jvalue \<Rightarrow> jvalue"
  m_persist :: "jvalue list \<Rightarrow> error option"


text \<open>\<open>_.intersection(xs, ys)\<close>: the elements of \<open>xs\<close>, once each, that are in \<open>ys\<close>.\<close>

definition intersection :: "string list \<Rightarrow> string list \<Rightarrow> string list" where
  "intersection xs ys = filter (\<lambda>x. x \<in> set ys) (rev (remdups (rev xs)))"

fun isPlainQueryValue :: "jvalue \<Rightarrow> bool" where
  "isPlainQueryValue (Str _) = True"
| "isPlainQueryValue (Num _) = True"
| "isPlainQueryValue (Bool _) = True"
| "isPlainQueryValue (Date _ _) = True"
| "isPlainQueryValue Null = True"
| "isPlainQueryValue _ = False"

text \<open>
  Step 1 of \<open>getCandidates\<close>: one index is chosen, for a basic match, then for \<open>$in\<close>,
  then for a comparison; otherwise all the data.
\<close>

definition usableKeys :: "(jvalue \<Rightarrow> bool) \<Rightarrow> store \<Rightarrow> jvalue \<Rightarrow> string list" where
  "usableKeys P st query =
     intersection (map fst (filter (\<lambda>kv. P (snd kv)) (obj_fields query))) (map fst (indexes st))"

definition candidatesStep1 :: "store \<Rightarrow> jvalue \<Rightarrow> error + jvalue list" where
  "candidatesStep1 st query =
     (case usableKeys isPlainQueryValue st query of
        k # _ \<Rightarrow> (case get_prop (indexes st) k of
                    Some idx \<Rightarrow> Inr (Index_getMatching idx (lookup_field (obj_fields query) k))
                  | None \<Rightarrow> Inl (OtherError ''TypeError''))
      | [] \<Rightarrow>
     (case usableKeys (\<lambda>v. hasOwn v ''$in'') st query of
        k # _ \<Rightarrow> (case get_prop (indexes st) k of
                    Some idx \<Rightarrow> Inr (Index_getMatching idx
                                       (lookup_field (obj_fields (lookup_field (obj_fields query) k)) ''$in''))
                  | None \<Rightarrow> Inl (OtherError ''TypeError''))
      | [] \<Rightarrow>
     (case usableKeys (\<lambda>v. hasOwn v ''$lt'' \<or> hasOwn v ''$lte'' \<or> hasOwn v ''$gt'' \<or> hasOwn v ''$gte'')
             st query of
        k # _ \<Rightarrow> (case get_prop (indexes st) k of
                    Some idx \<Rightarrow> Inr (Index_getBetweenBounds idx (lookup_field (obj_fields query) k))
                  | None \<Rightarrow> Inl (OtherError ''TypeError''))
      | [] \<Rightarrow> getAllData st)))"

text \<open>
  \<open>_remove\<close>.  The candidates are fetched with stale documents allowed; every candidate
  that matches (the first one only, without \<open>multi\<close>) is removed from all indexes as the
  loop meets it.  An error raised inside the loop goes to the callback at once.
\<close>

fun removeLoop ::
  "model_fns \<Rightarrow> jvalue \<Rightarrow> bool \<Rightarrow> jvalue list \<Rightarrow> nat \<Rightarrow> jvalue list \<Rightarrow> (string \<times> index) list
     \<Rightarrow> error option \<times> nat \<times> jvalue list \<times> (string \<times> index) list" where
  "removeLoop fns query multi [] numRemoved removedDocs ixs = (None, numRemoved, removedDocs, ixs)"
| "removeLoop fns query multi (d # ds) numRemoved removedDocs ixs =
     (case m_match fns d query of
        Inl e \<Rightarrow> (Some e, numRemoved, removedDocs, ixs)
      | Inr b \<Rightarrow>
          if b \<and> (multi \<or> numRemoved = 0)
          then removeLoop fns query multi ds (numRemoved + 1)
                 (removedDocs @ [Obj 0 [(''$$deleted'', Bool True), (''_id'', doc_id d)]])
                 (removeFromIndexes ixs d)
          else removeLoop fns query multi ds numRemoved removedDocs ixs)"

definition MemoryDB_remove :: "model_fns \<Rightarrow> store \<Rightarrow> jvalue \<Rightarrow> bool \<Rightarrow> (error + nat) \<times> store" where
  "MemoryDB_remove fns st query multi =
     (case candidatesStep1 st query of
        Inl e \<Rightarrow> (Inl e, st)
      | Inr candidates \<Rightarrow>
          (case removeLoop fns query multi candidates 0 [] (indexes st) of
             (Some e, _, _, ixs) \<Rightarrow> (Inl e, st\<lparr>indexes := ixs\<rparr>)
           | (None, numRemoved, removedDocs, ixs) \<Rightarrow>
               (case m_persist fns removedDocs of
                  Some e \<Rightarrow> (Inl e, st\<lparr>indexes := ixs\<rparr>)
                | None \<Rightarrow> (Inr numRemoved, st\<lparr>indexes := ixs\<rparr>))))"

text \<open>
  Step 2 of \<open>getCandidates\<close>.  A document is stale when, for some field of the TTL
  registry, it holds a date there and \<open>now\<close> is after that date plus the registered number
  of seconds.  The stale documents are removed one after the other, by \<open>_id\<close>.
\<close>

definition isExpired :: "(string \<times> int) list \<Rightarrow> int \<Rightarrow> jvalue \<Rightarrow> bool" where
  "isExpired ttl now doc =
     list_ex (\<lambda>(i, secs). case lookup_field (obj_fields doc) i of
                             Date _ t \<Rightarrow> now > t + secs * 1000
                           | _ \<Rightarrow> False) ttl"

fun expireLoop :: "model_fns \<Rightarrow> store \<Rightarrow> jvalue list \<Rightarrow> error option \<times> store" where
  "expireLoop fns st [] = (None, st)"
| "expireLoop fns st (i # ids) =
     (case MemoryDB_remove fns st (Obj 0 [(''_id'', i)]) False of
        (Inl e, st') \<Rightarrow> (Some e, st')
      | (Inr _, st') \<Rightarrow> expireLoop fns st' ids)"

definition getCandidates ::
  "model_fns \<Rightarrow> int \<Rightarrow> store \<Rightarrow> jvalue \<Rightarrow> bool \<Rightarrow> (error + jvalue list) \<times> store" where
  "getCandidates fns now st query dontExpireStaleDocs =
     (case candidatesStep1 st query of
        Inl e \<Rightarrow> (Inl e, st)
      | Inr docs \<Rightarrow>
          if dontExpireStaleDocs then (Inr docs, st)
          else
            (let validDocs = filter (\<lambda>doc. \<not> isExpired (ttlIndexes st) now doc) docs;
                 expiredDocsIds = map doc_id (filter (isExpired (ttlIndexes st) now) docs)
             in case expireLoop fns st expiredDocsIds of
                  (Some e, st') \<Rightarrow> (Inl e, st')
                | (None, st') \<Rightarrow> (Inr validDocs, st')))"

section \<open>Copies and projections of documents\<close>

text \<open>
  Modelled from the spec: \<open>model.deepCopy\<close> (the model module is not among the sources).  A
  deep copy has the contents of the original in newly allocated objects; \<open>n\<close> is the next
  free address, and the copy takes the addresses from \<open>n\<close> on.
\<close>

fun deepCopy :: "nat \<Rightarrow> jvalue \<Rightarrow> jvalue \<times> nat"
  and deepCopyList :: "nat \<Rightarrow> jvalue list \<Rightarrow> jvalue list \<times> nat"
  and deepCopyFields :: "nat \<Rightarrow> (string \<times> jvalue) list \<Rightarrow> (string \<times> jvalue) list \<times> nat"
where
  "deepCopy n (Date r t) = (Date n t, Suc n)"
| "deepCopy n (Arr r xs) = (case deepCopyList (Suc n) xs of (ys, n') \<Rightarrow> (Arr n ys, n'))"
| "deepCopy n (Obj r fs) = (case deepCopyFields (Suc n) fs of (gs, n') \<Rightarrow> (Obj n gs, n'))"
| "deepCopy n Undefined = (Undefined, n)"
| "deepCopy n Null = (Null, n)"
| "deepCopy n (Num i) = (Num i, n)"
| "deepCopy n (Str s) = (Str s, n)"
| "deepCopy n (Bool b) = (Bool b, n)"
| "deepCopyList n [] = ([], n)"
| "deepCopyList n (x # xs) =
     (case deepCopy n x of (y, n') \<Rightarrow>
        (case deepCopyList n' xs of (ys, n'') \<Rightarrow> (y # ys, n'')))"
| "deepCopyFields n [] = ([], n)"
| "deepCopyFields n (f # fs) =
     (case deepCopy n (snd f) of (y, n') \<Rightarrow>
        (case deepCopyFields n' fs of (gs, n'') \<Rightarrow> ((fst f, y) # gs, n'')))"

text \<open>The contents of a value, whatever the addresses: all of them set to 0.\<close>

fun erase :: "jvalue \<Rightarrow> jvalue" where
  "erase (Date r t) = Date 0 t"
| "erase (Arr r xs) = Arr 0 (map erase xs)"
| "erase (Obj r fs) = Obj 0 (map (\<lambda>f. (fst f, erase (snd f))) fs)"
| "erase v = v"

text \<open>The addresses of the objects a value is made of.\<close>

fun refs :: "jvalue \<Rightarrow> ref set" where
  "refs (Date r t) = {r}"
| "refs (Arr r xs) = insert r (\<Union> (refs ` set xs))"
| "refs (Obj r fs) = insert r (\<Union> ((\<lambda>f. refs (snd f)) ` set fs))"
| "refs v = {}"

text \<open>
  Modelled from the spec: \<open>model.modify\<close> for the two modifiers a projection uses (the
  model module is not among the sources).  \<open>$set\<close> writes the operand at a dotted path,
  creating the objects on the way; \<open>$unset\<close> deletes the path; the output is a fresh deep
  copy.  A path through a value that is no object is left alone.
\<close>

fun setPath :: "jvalue \<Rightarrow> string list \<Rightarrow> jvalue \<Rightarrow> jvalue" where
  "setPath (Obj r fs) [p] v = Obj r (set_prop p v fs)"
| "setPath (Obj r fs) (p # q # ps) v =
     Obj r (set_prop p
              (setPath (if lookup_field fs p = Undefined then Obj 0 [] else lookup_field fs p)
                 (q # ps) v) fs)"
| "setPath other ps v = other"

fun unsetPath :: "jvalue \<Rightarrow> string list \<Rightarrow> jvalue" where
  "unsetPath (Obj r fs) [p] = Obj r (delete_prop p fs)"
| "unsetPath (Obj r fs) (p # q # ps) =
     (if lookup_field fs p = Undefined then Obj r fs
      else Obj r (set_prop p (unsetPath (lookup_field fs p) (q # ps)) fs))"
| "unsetPath other ps = other"

definition modifySet :: "nat \<Rightarrow> jvalue \<Rightarrow> (string \<times> jvalue) list \<Rightarrow> jvalue \<times> nat" where
  "modifySet n obj sets = deepCopy n (foldl (\<lambda>acc kv. setPath acc (split_dots [] (fst kv)) (snd kv)) obj sets)"

definition modifyUnset :: "nat \<Rightarrow> jvalue \<Rightarrow> string list \<Rightarrow> jvalue \<times> nat" where
  "modifyUnset n obj ks = deepCopy n (foldl (\<lambda>acc k. unsetPath acc (split_dots [] k)) obj ks)"

section \<open>Cursor\<close>

record cursor =
  c_query :: jvalue
  c_limit :: "int option"
  c_skip :: "int option"
  c_sort :: "(string \<times> int) list option"
  c_projection :: "(string \<times> jvalue) list option"

text \<open>\<open>new Cursor(db, query)\<close> and the fluent setters.\<close>

definition new_Cursor :: "jvalue \<Rightarrow> cursor" where
  "new_Cursor query =
     \<lparr>c_query = query, c_limit = None, c_skip = None, c_sort = None, c_projection = None\<rparr>"


definition skip :: "int \<Rightarrow> cursor \<Rightarrow> cursor" where
  "skip k c = c\<lparr>c_skip := Some k\<rparr>"

definition sort_by :: "(string \<times> int) list \<Rightarrow> cursor \<Rightarrow> cursor" where
  "sort_by sortQuery c = c\<lparr>c_sort := Some sortQuery\<rparr>"

definition projection :: "(string \<times> jvalue) list option \<Rightarrow> cursor \<Rightarrow> cursor" where
  "projection pr c = c\<lparr>c_projection := pr\<rparr>"

text \<open>
  \<open>Cursor.project\<close>.  The consistency check walks the keys other than \<open>_id\<close> and raises
  when a value differs (by \<open>!==\<close>) from the one before; \<open>action\<close> is the last value.
\<close>

fun checkConsistency :: "jvalue \<Rightarrow> (string \<times> jvalue) list \<Rightarrow> error + jvalue" where
  "checkConsistency action [] = Inr action"
| "checkConsistency action ((k, v) # kvs) =
     (if action \<noteq> Undefined \<and> \<not> strictEq v action then Inl InconsistentProjection
      else checkConsistency v kvs)"

definition pickFields :: "jvalue \<Rightarrow> string list \<Rightarrow> (string \<times> jvalue) list" where
  "pickFields candidate ks =
     foldl (\<lambda>sets k. if getDotValue candidate k = Undefined then delete_prop k sets
                      else set_prop k (getDotValue candidate k) sets) [] ks"

definition projectOne :: "nat \<Rightarrow> jvalue \<Rightarrow> bool \<Rightarrow> string list \<Rightarrow> jvalue \<Rightarrow> jvalue \<times> nat" where
  "projectOne n action keepId ks candidate =
     (case (if strictEq action (Num 1)
            then modifySet n (Obj 0 []) (pickFields candidate ks)
            else modifyUnset n candidate ks) of
        (toPush, n') \<Rightarrow>
          (case toPush of
             Obj r fs \<Rightarrow> (Obj r (if keepId then set_prop ''_id'' (doc_id candidate) fs
                                  else delete_prop ''_id'' fs), n')
           | other \<Rightarrow> (other, n')))"

fun projectAll :: "nat \<Rightarrow> jvalue \<Rightarrow> bool \<Rightarrow> string list \<Rightarrow> jvalue list \<Rightarrow> jvalue list \<times> nat" where
  "projectAll n action keepId ks [] = ([], n)"
| "projectAll n action keepId ks (c # cs) =
     (case projectOne n action keepId ks c of (d, n') \<Rightarrow>
        (case projectAll n' action keepId ks cs of (ds, n'') \<Rightarrow> (d # ds, n'')))"

definition Cursor_project :: "nat \<Rightarrow> cursor \<Rightarrow> jvalue list \<Rightarrow> (error + jvalue list) \<times> cursor \<times> nat" where
  "Cursor_project n c candidates =
     (case c_projection c of
        None \<Rightarrow> (Inr candidates, c, n)
      | Some pr \<Rightarrow>
          if pr = [] then (Inr candidates, c, n)
          else
            (let keepId = (\<not> strictEq (lookup_field pr ''_id'') (Num 0));
                 pr' = delete_prop ''_id'' pr;
                 c' = c\<lparr>c_projection := Some pr'\<rparr>
             in case checkConsistency Undefined pr' of
                  Inl e \<Rightarrow> (Inl e, c', n)
                | Inr action \<Rightarrow>
                    (case projectAll n action keepId (map fst pr') candidates of
                       (res, n') \<Rightarrow> (Inr res, c', n'))))"

text \<open>
  \<open>Cursor._exec\<close>.  Without a sort, skip and limit are applied while the candidates are
  filtered; with a sort all matches are collected, sorted and sliced.
\<close>

fun execLoop ::
  "model_fns \<Rightarrow> cursor \<Rightarrow> jvalue list \<Rightarrow> jvalue list \<Rightarrow> int \<Rightarrow> int \<Rightarrow> error + jvalue list" where
  "execLoop fns c [] res added skipped = Inr res"
| "execLoop fns c (d # ds) res added skipped =
     (case m_match fns d (c_query c) of
        Inl e \<Rightarrow> Inl e
      | Inr False \<Rightarrow> execLoop fns c ds res added skipped
      | Inr True \<Rightarrow>
          if c_sort c = None then
            (if (case c_skip c of Some k \<Rightarrow> k \<noteq> 0 \<and> k > skipped | None \<Rightarrow> False)
             then execLoop fns c ds res added (skipped + 1)
             else if (case c_limit c of Some l \<Rightarrow> l \<noteq> 0 \<and> l \<le> added + 1 | None \<Rightarrow> False)
                  then Inr (res @ [d])
                  else execLoop fns c ds (res @ [d]) (added + 1) skipped)
          else execLoop fns c ds (res @ [d]) added skipped)"

text \<open>The comparison function given to \<open>sort\<close>: the first criterion that tells the two apart.\<close>

fun compareByCriteria ::
  "(string \<Rightarrow> string \<Rightarrow> int) \<Rightarrow> (string \<times> int) list \<Rightarrow> jvalue \<Rightarrow> jvalue \<Rightarrow> int" where
  "compareByCriteria cs [] a b = 0"
| "compareByCriteria cs ((key, direction) # criteria) a b =
     (let compare = direction * compareThingsWith cs (getDotValue a key) (getDotValue b key)
      in if compare \<noteq> 0 then compare else compareByCriteria cs criteria a b)"

text \<open>\<open>Array.prototype.sort\<close> with a comparison function: a stable sort.\<close>

fun insertSorted :: "('a \<Rightarrow> 'a \<Rightarrow> int) \<Rightarrow> 'a \<Rightarrow> 'a list \<Rightarrow> 'a list" where
  "insertSorted cmp x [] = [x]"
| "insertSorted cmp x (y # ys) =
     (if cmp x y \<le> 0 then x # y # ys else y # insertSorted cmp x ys)"

definition stableSort :: "('a \<Rightarrow> 'a \<Rightarrow> int) \<Rightarrow> 'a list \<Rightarrow> 'a list" where
  "stableSort cmp xs = foldr (insertSorted cmp) xs []"

text \<open>\<open>Array.prototype.slice(start, end)\<close>, negative positions counting from the end.\<close>

definition slicePos :: "int \<Rightarrow> nat \<Rightarrow> nat" where
  "slicePos i len = (if i < 0 then nat (max (int len + i) 0) else min (nat i) len)"

definition slice :: "'a list \<Rightarrow> int \<Rightarrow> int \<Rightarrow> 'a list" where
  "slice xs start fin =
     take (slicePos fin (length xs) - slicePos start (length xs)) (drop (slicePos start (length xs)) xs)"

definition sortAndSlice :: "store \<Rightarrow> cursor \<Rightarrow> jvalue list \<Rightarrow> jvalue list" where
  "sortAndSlice st c res =
     (case c_sort c of
        None \<Rightarrow> res
      | Some criteria \<Rightarrow>
          (let sortedRes = stableSort
                 (compareByCriteria (case compareStrings st of Some cs \<Rightarrow> cs | None \<Rightarrow> compareNSB)
                    criteria) res;
               lim = (case c_limit c of
                        Some l \<Rightarrow> if l \<noteq> 0 then l else int (length sortedRes)
                      | None \<Rightarrow> int (length sortedRes));
               skp = (case c_skip c of Some k \<Rightarrow> k | None \<Rightarrow> 0)
           in slice sortedRes skp (skp + lim)))"

definition Cursor_exec ::
  "model_fns \<Rightarrow> int \<Rightarrow> nat \<Rightarrow> store \<Rightarrow> cursor \<Rightarrow> (error + jvalue list) \<times> store \<times> nat" where
  "Cursor_exec fns now n st c =
     (case getCandidates fns now st (c_query c) False of
        (Inl e, st') \<Rightarrow> (Inl e, st', n)
      | (Inr candidates, st') \<Rightarrow>
          (case execLoop fns c candidates [] 0 0 of
             Inl e \<Rightarrow> (Inl e, st', n)
           | Inr res \<Rightarrow>
               (case Cursor_project n c (sortAndSlice st' c res) of
                  (r, _, n') \<Rightarrow> (r, st', n'))))"


section \<open>Insert and update\<close>












text \<open>
  \<open>find\<close> followed by \<open>exec\<close>: the cursor is executed and its post-processor answers deep
  copies of the documents.
\<close>

definition findExec ::
  "model_fns \<Rightarrow> int \<Rightarrow> nat \<Rightarrow> store \<Rightarrow> cursor \<Rightarrow> (error + jvalue list) \<times> store \<times> nat" where
  "findExec fns now n st c =
     (case Cursor_exec fns now n st c of
        (Inl e, st', n') \<Rightarrow> (Inl e, st', n')
      | (Inr docs, st', n') \<Rightarrow>
          (case deepCopyList n' docs of (res, n'') \<Rightarrow> (Inr res, st', n'')))"

section \<open>Instances of the model functions\<close>






section \<open>Predicates used in the statements\<close>

fun isObject :: "jvalue \<Rightarrow> bool" where
  "isObject (Obj _ _) = True"
| "isObject _ = False"

text \<open>The two values a projection gives a path: 0 (omit) and 1 (keep).\<close>

definition is01 :: "jvalue \<Rightarrow> bool" where
  "is01 v = (v = Num 0 \<or> v = Num 1)"

section \<open>Example data\<close>

definition doc_nested :: jvalue where
  "doc_nested = Obj 1 [(''_id'', Str ''a''), (''tags'', Arr 2 [Arr 3 [Num 1], Arr 4 [Num 2]])]"

text \<open>The three documents \<open>{_id:"1", n:3}\<close>, \<open>{_id:"2", n:1}\<close>, \<open>{_id:"3", n:2}\<close> in a store.\<close>

definition doc1 :: jvalue where
  "doc1 = Obj 1 [(''_id'', Str ''1''), (''n'', Num 3)]"

definition doc2 :: jvalue where
  "doc2 = Obj 2 [(''_id'', Str ''2''), (''n'', Num 1)]"











section \<open>Properties\<close>

subsection \<open>Array values in an index\<close>

lemma projectForUnique_array: "projectForUnique (Arr r xs) = Str ''$null''"
  by simp

lemma uniq_two_arrays: "uniq [Arr r xs, Arr r' ys] projectForUnique = [Arr r xs]"
  by (simp add: uniq_def)

text \<open>
  C3.  A document whose \<open>tags\<close> field holds two different arrays, \<open>[[1], [2]]\<close>, is
  inserted into an index on \<open>tags\<close>.  Were an array element projected to itself, the
  document would be stored under both elements; the projection sends every array to
  \<open>$null\<close>, so the second element counts as a duplicate of the first and the index holds the
  document under \<open>[1]\<close> only.
\<close>

theorem C3_array_elements_collapse:
  "Index_insert (new_Index ''tags'' False False) doc_nested =
     Done \<lparr>fieldName = ''tags'', unique = False, sparse = False,
           tree = [(Arr 3 [Num 1], [doc_nested])]\<rparr>"
  by (simp add: doc_nested_def Index_insert_def Index_insert_one_def new_Index_def
      getDotValue_def uniq_def)

subsection \<open>The index set\<close>

text \<open>
  C4.  On a new store \<open>removeIndex("_id")\<close> deletes the \<open>_id\<close> index: afterwards the index
  set has no entry of that name and \<open>getAllData\<close>, which reads it, fails.
\<close>

theorem C4_removeIndex_deletes_id:
  "get_prop (indexes (snd (removeIndex None new_MemoryDB ''_id''))) ''_id'' = None
   \<and> getAllData (snd (removeIndex None new_MemoryDB ''_id'')) = Inl (OtherError ''TypeError'')"
  by (simp add: removeIndex_def new_MemoryDB_def delete_prop_def getAllData_def)

text \<open>
  C9.  \<open>ensureIndex\<close> on a field that already has an index reports no error and returns
  the store as it was: indexes and TTL registry are untouched, whatever the other options.
\<close>

theorem C9_ensureIndex_existing:
  assumes "o_fieldName options = Some f" and "f \<noteq> []" and "get_prop (indexes st) f \<noteq> None"
  shows "ensureIndex persist st options = (None, st)"
  using assms by (simp add: ensureIndex_def)

theorem C9_ensureIndex_existing_witness:
  "ensureIndex (Some (OtherError ''disk''))
      new_MemoryDB
      \<lparr>o_fieldName = Some ''_id'', o_unique = Some False, o_sparse = Some True,
       o_expireAfterSeconds = Some 5\<rparr>
   = (None, new_MemoryDB)"
  by (rule C9_ensureIndex_existing [where f = "''_id''"]) (simp_all add: new_MemoryDB_def)

subsection \<open>The report of an update\<close>





subsection \<open>Stale documents\<close>





subsection \<open>findOne\<close>

lemma deepCopy_props:
  "erase (fst (deepCopy n v)) = erase v \<and> n \<le> snd (deepCopy n v)
     \<and> (\<forall>r \<in> refs (fst (deepCopy n v)). n \<le> r \<and> r < snd (deepCopy n v))"
  "map erase (fst (deepCopyList n vs)) = map erase vs \<and> n \<le> snd (deepCopyList n vs)
     \<and> (\<forall>x \<in> set (fst (deepCopyList n vs)). \<forall>r \<in> refs x. n \<le> r \<and> r < snd (deepCopyList n vs))"
  "map (\<lambda>f. (fst f, erase (snd f))) (fst (deepCopyFields n fs)) = map (\<lambda>f. (fst f, erase (snd f))) fs
     \<and> n \<le> snd (deepCopyFields n fs)
     \<and> (\<forall>x \<in> set (fst (deepCopyFields n fs)). \<forall>r \<in> refs (snd x). n \<le> r \<and> r < snd (deepCopyFields n fs))"
proof (induction n v and n vs and n fs rule: deepCopy_deepCopyList_deepCopyFields.induct)
  case (2 n r xs)
  then show ?case by (fastforce split: prod.splits)
next
  case (3 n r fs)
  then show ?case by (fastforce split: prod.splits)
next
  case (10 n x xs)
  then show ?case by (fastforce split: prod.splits)
next
  case (12 n f fs)
  then show ?case by (fastforce split: prod.splits)
qed auto






subsection \<open>Projections\<close>

lemma strictEq_01: "is01 v \<Longrightarrow> is01 a \<Longrightarrow> strictEq v a = (v = a)"
  by (auto simp: is01_def)

lemma is01_defined: "is01 v \<Longrightarrow> v \<noteq> Undefined"
  by (auto simp: is01_def)

lemma checkConsistency_differs:
  "is01 a \<Longrightarrow> \<forall>kv \<in> set kvs. is01 (snd kv)
     \<Longrightarrow> \<exists>kv \<in> set kvs. snd kv \<noteq> a
     \<Longrightarrow> checkConsistency a kvs = Inl InconsistentProjection"
proof (induction kvs arbitrary: a)
  case Nil
  then show ?case by simp
next
  case (Cons kv kvs)
  obtain k v where kv: "kv = (k, v)" by (cases kv)
  from Cons.prems kv have v: "is01 v" by simp
  show ?case
  proof (cases "v = a")
    case True
    with Cons.prems kv have "\<exists>kv \<in> set kvs. snd kv \<noteq> a" by simp
    with Cons.IH [of a] Cons.prems have "checkConsistency a kvs = Inl InconsistentProjection"
      by simp
    with True kv v show ?thesis by (simp add: strictEq_01)
  next
    case False
    with Cons.prems(1) kv v show ?thesis by (simp add: strictEq_01 is01_defined)
  qed
qed

lemma checkConsistency_mixed:
  assumes "\<forall>kv \<in> set kvs. is01 (snd kv)"
    and "Num 0 \<in> snd ` set kvs" and "Num 1 \<in> snd ` set kvs"
  shows "checkConsistency Undefined kvs = Inl InconsistentProjection"
proof (cases kvs)
  case Nil
  with assms show ?thesis by simp
next
  case (Cons kv rest)
  obtain k v where kv: "kv = (k, v)" by (cases kv)
  from assms Cons kv have v: "is01 v" by simp
  have "\<exists>x \<in> set rest. snd x \<noteq> v"
  proof (cases "v = Num 0")
    case True
    from assms(3) obtain x where "x \<in> set kvs" "snd x = Num 1" by force
    with True Cons kv show ?thesis by (intro bexI [of _ x]) auto
  next
    case False
    from assms(2) obtain x where "x \<in> set kvs" "snd x = Num 0" by force
    with False Cons kv show ?thesis by (intro bexI [of _ x]) auto
  qed
  with checkConsistency_differs [of v rest] assms(1) Cons v
  have "checkConsistency v rest = Inl InconsistentProjection" by simp
  with Cons kv show ?thesis by simp
qed

lemma lookup_field_set_prop [simp]: "lookup_field (set_prop k v fs) k = v"
  by (induction fs) auto

lemma keys_delete_prop [simp]: "k \<notin> fst ` set (delete_prop k fs)"
  by (auto simp: delete_prop_def)

lemma isObject_setPath [simp]: "isObject obj \<Longrightarrow> isObject (setPath obj ps v)"
  by (induction obj ps v rule: setPath.induct) auto

lemma isObject_unsetPath [simp]: "isObject obj \<Longrightarrow> isObject (unsetPath obj ps)"
  by (induction obj ps rule: unsetPath.induct) auto

lemma isObject_foldl_set: "isObject obj \<Longrightarrow> isObject (foldl (\<lambda>acc kv. setPath acc (f kv) (g kv)) obj xs)"
  by (induction xs arbitrary: obj) auto

lemma isObject_foldl_unset: "isObject obj \<Longrightarrow> isObject (foldl (\<lambda>acc k. unsetPath acc (f k)) obj xs)"
  by (induction xs arbitrary: obj) auto

lemma isObject_deepCopy [simp]: "isObject v \<Longrightarrow> isObject (fst (deepCopy n v))"
  by (cases v) (auto split: prod.splits)

lemma projectOne_id:
  assumes "isObject c"
  shows "isObject (fst (projectOne n action keepId ks c))
     \<and> (if keepId then lookup_field (obj_fields (fst (projectOne n action keepId ks c))) ''_id'' = doc_id c
         else ''_id'' \<notin> fst ` set (obj_fields (fst (projectOne n action keepId ks c))))"
proof -
  let ?t = "if strictEq action (Num 1)
            then modifySet n (Obj 0 []) (pickFields c ks)
            else modifyUnset n c ks"
  have "isObject (fst ?t)"
    using assms by (auto simp: modifySet_def modifyUnset_def isObject_foldl_set isObject_foldl_unset)
  then obtain r fs where "fst ?t = Obj r fs" by (cases "fst ?t") auto
  then show ?thesis
    by (cases ?t) (auto simp: projectOne_def)
qed

lemma projectAll_nth:
  "length (fst (projectAll n action keepId ks cs)) = length cs \<and>
   (\<forall>i < length cs. \<exists>m. fst (projectAll n action keepId ks cs) ! i = fst (projectOne m action keepId ks (cs ! i)))"
proof (induction cs arbitrary: n)
  case Nil
  then show ?case by simp
next
  case (Cons c cs)
  obtain d n' where d: "projectOne n action keepId ks c = (d, n')" by (cases "projectOne n action keepId ks c")
  obtain ds n'' where ds: "projectAll n' action keepId ks cs = (ds, n'')"
    by (cases "projectAll n' action keepId ks cs")
  from Cons.IH [of n'] ds have ih: "length ds = length cs"
    "\<forall>i < length cs. \<exists>m. ds ! i = fst (projectOne m action keepId ks (cs ! i))" by auto
  have "\<exists>m. (d # ds) ! i = fst (projectOne m action keepId ks ((c # cs) ! i))" if "i < length (c # cs)" for i
  proof (cases i)
    case 0
    with d show ?thesis by (auto intro: exI [of _ n])
  next
    case (Suc j)
    with that ih show ?thesis by auto
  qed
  with d ds ih show ?case by simp
qed

lemma split_dots_plain: "CHR ''.'' \<notin> set k \<Longrightarrow> split_dots acc k = [acc @ k]"
  by (induction k arbitrary: acc) auto

lemma deepCopy_erase: "erase (fst (deepCopy n v)) = erase v"
  by (simp add: deepCopy_props)

lemma pick_only:
  assumes "CHR ''.'' \<notin> set k" and "k \<noteq> ''_id''"
  shows "erase (fst (projectOne n (Num 1) False [k] c))
          = Obj 0 (if getDotValue c k = Undefined then [] else [(k, erase (getDotValue c k))])"
proof -
  have "foldl (\<lambda>acc kv. setPath acc (split_dots [] (fst kv)) (snd kv)) (Obj 0 []) (pickFields c [k])
          = Obj 0 (if getDotValue c k = Undefined then [] else [(k, getDotValue c k)])"
    using assms by (simp add: pickFields_def split_dots_plain delete_prop_def)
  then have "erase (fst (modifySet n (Obj 0 []) (pickFields c [k])))
          = erase (Obj 0 (if getDotValue c k = Undefined then [] else [(k, getDotValue c k)]))"
    unfolding modifySet_def by (simp only: deepCopy_erase)
  then have "erase (fst (modifySet n (Obj 0 []) (pickFields c [k])))
          = Obj 0 (if getDotValue c k = Undefined then [] else [(k, erase (getDotValue c k))])"
    by simp
  then obtain r fs where m: "fst (modifySet n (Obj 0 []) (pickFields c [k])) = Obj r fs"
    and fs: "map (\<lambda>f. (fst f, erase (snd f))) fs = (if getDotValue c k = Undefined then [] else [(k, erase (getDotValue c k))])"
    by (cases "fst (modifySet n (Obj 0 []) (pickFields c [k]))") auto
  from fs assms have "map (\<lambda>f. (fst f, erase (snd f))) (delete_prop ''_id'' fs)
      = (if getDotValue c k = Undefined then [] else [(k, erase (getDotValue c k))])"
    by (cases fs) (auto simp: delete_prop_def split: if_splits)
  with m show ?thesis
    by (cases "modifySet n (Obj 0 []) (pickFields c [k])") (auto simp: projectOne_def)
qed

lemma projectAll_pick:
  assumes "CHR ''.'' \<notin> set k" and "k \<noteq> ''_id''"
  shows "map erase (fst (projectAll n (Num 1) False [k] cs))
          = map (\<lambda>d. Obj 0 (if getDotValue d k = Undefined then [] else [(k, erase (getDotValue d k))])) cs"
proof (induction cs arbitrary: n)
  case Nil
  then show ?case by simp
next
  case (Cons c cs)
  obtain d n' where d: "projectOne n (Num 1) False [k] c = (d, n')"
    by (cases "projectOne n (Num 1) False [k] c")
  obtain ds n'' where ds: "projectAll n' (Num 1) False [k] cs = (ds, n'')"
    by (cases "projectAll n' (Num 1) False [k] cs")
  from pick_only [OF assms, of n c] d
  have "erase d = Obj 0 (if getDotValue c k = Undefined then [] else [(k, erase (getDotValue c k))])"
    by simp
  with Cons.IH [of n'] d ds show ?case by simp
qed

text \<open>
  C8.  For candidates that are objects: without a projection (or with an empty one) the
  candidates are answered as they are, \<open>_id\<close> included.  A projection whose paths other
  than \<open>_id\<close> carry both a 0 and a 1 fails with the inconsistent-projection error.  When a
  projection succeeds, every result has no \<open>_id\<close> if the projection says \<open>_id: 0\<close>, and the
  \<open>_id\<close> of its candidate otherwise.  The projection \<open>{k: 1, _id: 0}\<close>, for a plain field
  name \<open>k\<close>, answers for each candidate the object holding its value at \<open>k\<close> under \<open>k\<close> and
  nothing else (the empty object when the candidate has no such value).
\<close>

theorem C8_projection:
  assumes "\<forall>d \<in> set candidates. isObject d"
  shows
   "(c_projection c = None \<or> c_projection c = Some [] \<longrightarrow>
       fst (Cursor_project n c candidates) = Inr candidates)
    \<and> (\<forall>pr. c_projection c = Some pr \<and>
           (\<forall>kv \<in> set (delete_prop ''_id'' pr). is01 (snd kv)) \<and>
           Num 0 \<in> snd ` set (delete_prop ''_id'' pr) \<and> Num 1 \<in> snd ` set (delete_prop ''_id'' pr)
         \<longrightarrow> fst (Cursor_project n c candidates) = Inl InconsistentProjection)
    \<and> (\<forall>pr res. c_projection c = Some pr \<and> pr \<noteq> [] \<and> fst (Cursor_project n c candidates) = Inr res
         \<longrightarrow> length res = length candidates \<and>
            (\<forall>i < length candidates.
                isObject (res ! i) \<and>
                (if strictEq (lookup_field pr ''_id'') (Num 0)
                 then ''_id'' \<notin> fst ` set (obj_fields (res ! i))
                 else lookup_field (obj_fields (res ! i)) ''_id'' = doc_id (candidates ! i))))
    \<and> (\<forall>k. c_projection c = Some [(k, Num 1), (''_id'', Num 0)] \<and> CHR ''.'' \<notin> set k \<and> k \<noteq> ''_id''
         \<longrightarrow> (\<exists>res. fst (Cursor_project n c candidates) = Inr res \<and>
                map erase res
                  = map (\<lambda>d. Obj 0 (if getDotValue d k = Undefined then []
                                      else [(k, erase (getDotValue d k))])) candidates))"
proof -
  have p1: "fst (Cursor_project n c candidates) = Inr candidates"
    if "c_projection c = None \<or> c_projection c = Some []"
    using that by (auto simp: Cursor_project_def)
  have p2: "fst (Cursor_project n c candidates) = Inl InconsistentProjection"
    if a: "c_projection c = Some pr \<and>
           (\<forall>kv \<in> set (delete_prop ''_id'' pr). is01 (snd kv)) \<and>
           Num 0 \<in> snd ` set (delete_prop ''_id'' pr) \<and> Num 1 \<in> snd ` set (delete_prop ''_id'' pr)"
    for pr
  proof -
    from a have "checkConsistency Undefined (delete_prop ''_id'' pr) = Inl InconsistentProjection"
      by (intro checkConsistency_mixed) simp_all
    moreover from a have "pr \<noteq> []" by (auto simp: delete_prop_def)
    ultimately show ?thesis
      using a by (simp add: Cursor_project_def Let_def)
  qed
  have p3: "length res = length candidates \<and>
            (\<forall>i < length candidates.
                isObject (res ! i) \<and>
                (if strictEq (lookup_field pr ''_id'') (Num 0)
                 then ''_id'' \<notin> fst ` set (obj_fields (res ! i))
                 else lookup_field (obj_fields (res ! i)) ''_id'' = doc_id (candidates ! i)))"
    if a: "c_projection c = Some pr \<and> pr \<noteq> [] \<and> fst (Cursor_project n c candidates) = Inr res"
    for pr res
  proof -
    from a obtain action where
      "checkConsistency Undefined (delete_prop ''_id'' pr) = Inr action"
      and res: "res = fst (projectAll n action (\<not> strictEq (lookup_field pr ''_id'') (Num 0))
                        (map fst (delete_prop ''_id'' pr)) candidates)"
      by (cases "checkConsistency Undefined (delete_prop ''_id'' pr)")
         (auto simp: Cursor_project_def Let_def split: prod.splits)
    let ?keep = "\<not> strictEq (lookup_field pr ''_id'') (Num 0)"
    let ?ks = "map fst (delete_prop ''_id'' pr)"
    from projectAll_nth [of n action ?keep ?ks candidates] res
    have len: "length res = length candidates"
      and nth: "\<forall>i < length candidates. \<exists>m. res ! i = fst (projectOne m action ?keep ?ks (candidates ! i))"
      by simp_all
    have "isObject (res ! i) \<and>
           (if strictEq (lookup_field pr ''_id'') (Num 0)
            then ''_id'' \<notin> fst ` set (obj_fields (res ! i))
            else lookup_field (obj_fields (res ! i)) ''_id'' = doc_id (candidates ! i))"
      if i: "i < length candidates" for i
    proof -
      from nth i obtain m where m: "res ! i = fst (projectOne m action ?keep ?ks (candidates ! i))"
        by blast
      from assms i have "isObject (candidates ! i)" by simp
      from projectOne_id [OF this, of m action ?keep ?ks] m show ?thesis
        by (simp split: if_splits)
    qed
    with len show ?thesis by blast
  qed
  have p4: "\<exists>res. fst (Cursor_project n c candidates) = Inr res \<and>
                map erase res
                  = map (\<lambda>d. Obj 0 (if getDotValue d k = Undefined then []
                                      else [(k, erase (getDotValue d k))])) candidates"
    if a: "c_projection c = Some [(k, Num 1), (''_id'', Num 0)] \<and> CHR ''.'' \<notin> set k \<and> k \<noteq> ''_id''"
    for k
  proof -
    from a have "fst (Cursor_project n c candidates)
                 = Inr (fst (projectAll n (Num 1) False [k] candidates))"
      by (simp add: Cursor_project_def Let_def delete_prop_def split: prod.splits)
    with a projectAll_pick [of k n candidates] show ?thesis by simp
  qed
  from p1 p2 p3 p4 show ?thesis by blast
qed

theorem C8_projection_witness:
  "fst (Cursor_project 10 (projection (Some [(''n'', Num 1), (''b'', Num 0)]) (new_Cursor (Obj 0 [])))
          [doc1, doc2]) = Inl InconsistentProjection
   \<and> fst (Cursor_project 10 (projection (Some [(''n'', Num 1), (''_id'', Num 0)]) (new_Cursor (Obj 0 [])))
          [doc1, doc2]) = Inr [Obj 10 [(''n'', Num 3)], Obj 11 [(''n'', Num 1)]]
   \<and> fst (Cursor_project 10 (projection (Some [(''n'', Num 1)]) (new_Cursor (Obj 0 [])))
          [doc1, doc2])
        = Inr [Obj 10 [(''n'', Num 3), (''_id'', Str ''1'')], Obj 11 [(''n'', Num 1), (''_id'', Str ''2'')]]"
proof -
  have h: "\<forall>d \<in> set [doc1, doc2]. isObject d" by (simp add: doc1_def doc2_def)
  have m: "c_projection (projection (Some [(''n'', Num 1), (''b'', Num 0)]) (new_Cursor (Obj 0 [])))
             = Some [(''n'', Num 1), (''b'', Num 0)]"
    by (simp add: projection_def new_Cursor_def)
  have "(\<forall>kv \<in> set (delete_prop ''_id'' [(''n'', Num 1), (''b'', Num 0)]). is01 (snd kv)) \<and>
        Num 0 \<in> snd ` set (delete_prop ''_id'' [(''n'', Num 1), (''b'', Num 0)]) \<and>
        Num 1 \<in> snd ` set (delete_prop ''_id'' [(''n'', Num 1), (''b'', Num 0)])"
    by (simp add: delete_prop_def is01_def)
  with C8_projection [OF h, of "projection (Some [(''n'', Num 1), (''b'', Num 0)]) (new_Cursor (Obj 0 []))" 10] m
  have 1: "fst (Cursor_project 10 (projection (Some [(''n'', Num 1), (''b'', Num 0)]) (new_Cursor (Obj 0 [])))
          [doc1, doc2]) = Inl InconsistentProjection"
    by blast
  have 2: "fst (Cursor_project 10 (projection (Some [(''n'', Num 1), (''_id'', Num 0)]) (new_Cursor (Obj 0 [])))
          [doc1, doc2]) = Inr [Obj 10 [(''n'', Num 3)], Obj 11 [(''n'', Num 1)]]"
    by code_simp
  have 3: "fst (Cursor_project 10 (projection (Some [(''n'', Num 1)]) (new_Cursor (Obj 0 [])))
          [doc1, doc2])
        = Inr [Obj 10 [(''n'', Num 3), (''_id'', Str ''1'')], Obj 11 [(''n'', Num 1), (''_id'', Str ''2'')]]"
    by code_simp
  from 1 2 3 show ?thesis by simp
qed

end
